theory Spec2Isabelle
  imports Main "HOL-Library.Word" "HOL-Library.Finite_Map"
begin

unbundle bit_operations_syntax

section \<open>String interning for MessagePack: the model of intern.go\<close>

text \<open>
  The Go source works on bytes, on Go strings (byte sequences, \<open>len\<close> counts bytes) and on
  the machine type \<open>int\<close>, taken here as the 64-bit two's complement integer of the
  common platforms. Lengths of slices, maps and strings are natural numbers.
\<close>

type_synonym byte = "8 word"
type_synonym gostring = "byte list"
type_synonym goint = "64 word"

subsection \<open>Constants\<close>

definition minInternedStringLen :: nat where
  "minInternedStringLen = 3"

definition maxDictLen :: nat where
  \<comment> \<open>\<open>math.MaxUint16\<close>\<close>
  "maxDictLen = 65535"

definition internedStringExtID :: byte where
  \<comment> \<open>\<open>int8(math.MinInt8)\<close>, that is \<open>-128\<close>; as a byte on the wire it is \<open>0x80\<close>\<close>
  "internedStringExtID = 0x80"

text \<open>
  The codes of package \<open>msgpcode\<close>, which the source imports; they are the codes of the
  MessagePack format.
\<close>

definition Nil_code :: byte where "Nil_code = 0xc0"
definition FixedStrLow :: byte where "FixedStrLow = 0xa0"
definition FixedStrHigh :: byte where "FixedStrHigh = 0xbf"
definition FixedStrMask :: byte where "FixedStrMask = 0x1f"
definition Bin8 :: byte where "Bin8 = 0xc4"
definition Bin16 :: byte where "Bin16 = 0xc5"
definition Bin32 :: byte where "Bin32 = 0xc6"
definition Ext8 :: byte where "Ext8 = 0xc7"
definition Ext16 :: byte where "Ext16 = 0xc8"
definition Ext32 :: byte where "Ext32 = 0xc9"
definition FixExt1 :: byte where "FixExt1 = 0xd4"
definition FixExt2 :: byte where "FixExt2 = 0xd5"
definition FixExt4 :: byte where "FixExt4 = 0xd6"
definition FixExt8 :: byte where "FixExt8 = 0xd7"
definition FixExt16 :: byte where "FixExt16 = 0xd8"
definition Str8 :: byte where "Str8 = 0xd9"
definition Str16 :: byte where "Str16 = 0xda"
definition Str32 :: byte where "Str32 = 0xdb"

definition IsFixedString :: "byte \<Rightarrow> bool" where
  "IsFixedString c \<longleftrightarrow> FixedStrLow \<le> c \<and> c \<le> FixedStrHigh"

lemmas msgpcode_defs =
  Nil_code_def FixedStrLow_def FixedStrHigh_def FixedStrMask_def Bin8_def Bin16_def Bin32_def
  Ext8_def Ext16_def Ext32_def FixExt1_def FixExt2_def FixExt4_def FixExt8_def FixExt16_def
  Str8_def Str16_def Str32_def

subsection \<open>Errors\<close>

datatype error =
    EOF                          \<comment> \<open>the input ended before the first byte asked for\<close>
  | ErrUnexpectedEOF             \<comment> \<open>the input ended inside the bytes asked for\<close>
  | ErrInvalidUnreadByte         \<comment> \<open>\<open>UnreadByte\<close> at the beginning of the input\<close>
  | InvalidExtLenCode byte       \<comment> \<open>\<open>invalid code=%x decoding ext len\<close>\<close>
  | errUnexpectedCode            \<comment> \<open>\<open>msgpack: unexpected code\<close>\<close>
  | ExtensionTypeMismatch byte   \<comment> \<open>\<open>got ext type=%d, wanted %d\<close>\<close>
  | MalformedIndexWidth goint    \<comment> \<open>\<open>unsupported intern string index length=%d\<close>\<close>
  | IndexOutOfRange goint        \<comment> \<open>\<open>intern string with index=%d does not exist\<close>\<close>
  | IndexOverflow goint          \<comment> \<open>\<open>intern string index=%d is too large\<close>\<close>
  | InvalidInternCode byte       \<comment> \<open>\<open>invalid code=%x decoding intern string\<close>\<close>

subsection \<open>The encoder and its writing primitives\<close>

text \<open>
  An encoder owns the bytes written so far and the encode dictionary \<open>map[string]int\<close>.
  A \<open>nil\<close> map and an empty map answer \<open>len\<close> and lookups alike, so both are the empty
  finite map. Every operation returns the error, if any, and the encoder as the call
  leaves it.
\<close>

record encoder =
  e_w :: "byte list"
  e_dict :: "(gostring, goint) fmap"

definition dict_len :: "(gostring, goint) fmap \<Rightarrow> nat" where
  \<comment> \<open>\<open>len(e.dict)\<close>\<close>
  "dict_len m = fcard (fmdom m)"

definition e_write :: "encoder \<Rightarrow> byte list \<Rightarrow> error option \<times> encoder" where
  \<comment> \<open>Modelled from the spec: the byte-stream transport is an opaque collaborator that is
      not under src/; the writer is an in-memory buffer, which takes every write.\<close>
  "e_write e b = (None, e\<lparr>e_w := e_w e @ b\<rparr>)"

definition writeCode :: "encoder \<Rightarrow> byte \<Rightarrow> error option \<times> encoder" where
  \<comment> \<open>Modelled from the spec: writes one code byte (the function is not under src/).\<close>
  "writeCode e c = e_write e [c]"

definition write1 :: "encoder \<Rightarrow> byte \<Rightarrow> 8 word \<Rightarrow> error option \<times> encoder" where
  \<comment> \<open>Modelled from the spec: a leading byte and a 1-byte unsigned integer (the function
      is not under src/).\<close>
  "write1 e code n = e_write e [code, n]"

definition write2 :: "encoder \<Rightarrow> byte \<Rightarrow> 16 word \<Rightarrow> error option \<times> encoder" where
  \<comment> \<open>Modelled from the spec: a leading byte and a 2-byte big-endian unsigned integer (the
      function is not under src/).\<close>
  "write2 e code n = e_write e [code, ucast (drop_bit 8 n), ucast n]"

definition write4 :: "encoder \<Rightarrow> byte \<Rightarrow> 32 word \<Rightarrow> error option \<times> encoder" where
  \<comment> \<open>Modelled from the spec: a leading byte and a 4-byte big-endian unsigned integer (the
      function is not under src/).\<close>
  "write4 e code n =
     e_write e [code, ucast (drop_bit 24 n), ucast (drop_bit 16 n), ucast (drop_bit 8 n), ucast n]"

definition encodeStringLen :: "encoder \<Rightarrow> nat \<Rightarrow> error option \<times> encoder" where
  \<comment> \<open>Modelled from the spec: the length prefix of a literal string in the host format:
      the fixed short form below 32 bytes, then the 8-, 16- and 32-bit length-prefixed forms
      (the function is not under src/). The 32-bit form stores the length modulo \<open>2 ^ 32\<close>.\<close>
  "encodeStringLen e l =
     (if l < 32 then writeCode e (FixedStrLow OR of_nat l)
      else if l < 256 then write1 e Str8 (of_nat l)
      else if l \<le> 65535 then write2 e Str16 (of_nat l)
      else write4 e Str32 (of_nat l))"

definition encodeNormalString :: "encoder \<Rightarrow> gostring \<Rightarrow> error option \<times> encoder" where
  \<comment> \<open>Modelled from the spec: a plain literal is the length prefix followed by the bytes of
      the string (the function is not under src/).\<close>
  "encodeNormalString e s =
     (case encodeStringLen e (length s) of
        (Some err, e') \<Rightarrow> (Some err, e')
      | (None, e') \<Rightarrow> e_write e' s)"

subsection \<open>Encoding: intern.go, lines 58 to 104\<close>

definition encodeInternedStringIndex :: "encoder \<Rightarrow> goint \<Rightarrow> error option \<times> encoder" where
  "encodeInternedStringIndex e idx =
     (if idx \<le>s 255 then
        (case writeCode e FixExt1 of
           (Some err, e') \<Rightarrow> (Some err, e')
         | (None, e') \<Rightarrow> write1 e' internedStringExtID (ucast idx))
      else if idx \<le>s 65535 then
        (case writeCode e FixExt2 of
           (Some err, e') \<Rightarrow> (Some err, e')
         | (None, e') \<Rightarrow> write2 e' internedStringExtID (ucast idx))
      else if idx \<le> 4294967295 then
        \<comment> \<open>\<open>uint64(idx) <= math.MaxUint32\<close>: the unsigned reading of the same 64 bits\<close>
        (case writeCode e FixExt4 of
           (Some err, e') \<Rightarrow> (Some err, e')
         | (None, e') \<Rightarrow> write4 e' internedStringExtID (ucast idx))
      else (Some (IndexOverflow idx), e))"

definition encodeInternedString :: "encoder \<Rightarrow> gostring \<Rightarrow> bool \<Rightarrow> error option \<times> encoder" where
  "encodeInternedString e s intern =
     (if length s \<ge> minInternedStringLen then
        (case fmlookup (e_dict e) s of
           Some idx \<Rightarrow> encodeInternedStringIndex e idx
         | None \<Rightarrow>
             (if intern \<and> dict_len (e_dict e) < maxDictLen
              then encodeNormalString
                     (e\<lparr>e_dict := fmupd s (of_nat (dict_len (e_dict e))) (e_dict e)\<rparr>) s
              else encodeNormalString e s))
      else encodeNormalString e s)"

definition encodeInternedStringValue :: "encoder \<Rightarrow> gostring \<Rightarrow> error option \<times> encoder" where
  "encodeInternedStringValue e v = encodeInternedString e v True"

subsection \<open>The decoder and its reading primitives\<close>

text \<open>
  A decoder owns its input, the position of the next byte, and the decode dictionary
  \<open>[]string\<close>. Every operation returns its result or error together with the decoder as the
  call leaves it, so that what a failing call consumed or stored stays visible.
\<close>

record decoder =
  d_s :: "byte list"
  d_pos :: nat
  d_dict :: "gostring list"

definition ReadByte :: "decoder \<Rightarrow> (error + byte) \<times> decoder" where
  \<comment> \<open>Modelled from the spec: the byte source is an opaque collaborator that is not under
      src/; it is a reader over a byte sequence, which hands out the next byte or reports the
      end of the input.\<close>
  "ReadByte d =
     (if d_pos d < length (d_s d) then (Inr (d_s d ! d_pos d), d\<lparr>d_pos := Suc (d_pos d)\<rparr>)
      else (Inl EOF, d))"

definition UnreadByte :: "decoder \<Rightarrow> error option \<times> decoder" where
  \<comment> \<open>Modelled from the spec: the one-byte rewind primitive of the read side (not under
      src/); it steps back one byte and fails only at the beginning of the input.\<close>
  "UnreadByte d =
     (if d_pos d = 0 then (Some ErrInvalidUnreadByte, d)
      else (None, d\<lparr>d_pos := d_pos d - 1\<rparr>))"

definition readCode :: "decoder \<Rightarrow> (error + byte) \<times> decoder" where
  \<comment> \<open>Modelled from the spec: reads the code byte (the function is not under src/).\<close>
  "readCode d = ReadByte d"

definition readN :: "decoder \<Rightarrow> nat \<Rightarrow> (error + byte list) \<times> decoder" where
  \<comment> \<open>Modelled from the spec: reads exactly \<open>n\<close> bytes of payload (the function is not
      under src/). On a short input the reader is drained and the read fails.\<close>
  "readN d n =
     (if d_pos d + n \<le> length (d_s d)
      then (Inr (take n (drop (d_pos d) (d_s d))), d\<lparr>d_pos := d_pos d + n\<rparr>)
      else (Inl (if d_pos d < length (d_s d) then ErrUnexpectedEOF else EOF),
            d\<lparr>d_pos := length (d_s d)\<rparr>))"

definition BigEndian_Uint16 :: "byte list \<Rightarrow> 16 word" where
  \<comment> \<open>\<open>binary.BigEndian.Uint16\<close> of the standard library, on a slice of two bytes\<close>
  "BigEndian_Uint16 b = ucast (b ! 1) OR push_bit 8 (ucast (b ! 0))"

definition BigEndian_Uint32 :: "byte list \<Rightarrow> 32 word" where
  \<comment> \<open>\<open>binary.BigEndian.Uint32\<close> of the standard library, on a slice of four bytes\<close>
  "BigEndian_Uint32 b =
     ucast (b ! 3) OR push_bit 8 (ucast (b ! 2)) OR push_bit 16 (ucast (b ! 1))
       OR push_bit 24 (ucast (b ! 0))"

definition uint8 :: "decoder \<Rightarrow> (error + 8 word) \<times> decoder" where
  \<comment> \<open>Modelled from the spec: the 8-bit length prefix (the function is not under src/).\<close>
  "uint8 d = readCode d"

definition uint16 :: "decoder \<Rightarrow> (error + 16 word) \<times> decoder" where
  \<comment> \<open>Modelled from the spec: the 16-bit big-endian length prefix (the function is not
      under src/).\<close>
  "uint16 d =
     (case readN d 2 of
        (Inl err, d') \<Rightarrow> (Inl err, d')
      | (Inr b, d') \<Rightarrow> (Inr (BigEndian_Uint16 b), d'))"

definition uint32 :: "decoder \<Rightarrow> (error + 32 word) \<times> decoder" where
  \<comment> \<open>Modelled from the spec: the 32-bit big-endian length prefix (the function is not
      under src/).\<close>
  "uint32 d =
     (case readN d 4 of
        (Inl err, d') \<Rightarrow> (Inl err, d')
      | (Inr b, d') \<Rightarrow> (Inr (BigEndian_Uint32 b), d'))"

definition parseExtLen :: "decoder \<Rightarrow> byte \<Rightarrow> (error + goint) \<times> decoder" where
  \<comment> \<open>Modelled from the spec: the payload length of an extension envelope, fixed by the
      code for the fixed-extension envelopes and read from the input for the others (the
      function is not under src/).\<close>
  "parseExtLen d c =
     (if c = FixExt1 then (Inr 1, d)
      else if c = FixExt2 then (Inr 2, d)
      else if c = FixExt4 then (Inr 4, d)
      else if c = FixExt8 then (Inr 8, d)
      else if c = FixExt16 then (Inr 16, d)
      else if c = Ext8 then
        (case uint8 d of (Inl err, d') \<Rightarrow> (Inl err, d') | (Inr n, d') \<Rightarrow> (Inr (ucast n), d'))
      else if c = Ext16 then
        (case uint16 d of (Inl err, d') \<Rightarrow> (Inl err, d') | (Inr n, d') \<Rightarrow> (Inr (ucast n), d'))
      else if c = Ext32 then
        (case uint32 d of (Inl err, d') \<Rightarrow> (Inl err, d') | (Inr n, d') \<Rightarrow> (Inr (ucast n), d'))
      else (Inl (InvalidExtLenCode c), d))"

definition extHeader :: "decoder \<Rightarrow> byte \<Rightarrow> (error + byte \<times> goint) \<times> decoder" where
  \<comment> \<open>Modelled from the spec: the header of an extension envelope is its payload length
      and its type tag, the byte after the code (the function is not under src/).\<close>
  "extHeader d c =
     (case parseExtLen d c of
        (Inl err, d') \<Rightarrow> (Inl err, d')
      | (Inr len, d') \<Rightarrow>
          (case readCode d' of
             (Inl err, d'') \<Rightarrow> (Inl err, d'')
           | (Inr typeID, d'') \<Rightarrow> (Inr (typeID, len), d'')))"

definition stringWithLen :: "decoder \<Rightarrow> goint \<Rightarrow> (error + gostring) \<times> decoder" where
  \<comment> \<open>Modelled from the spec: reads the \<open>n\<close> bytes of a literal (the function is not under
      src/).\<close>
  "stringWithLen d n =
     (if n \<le>s 0 then (Inr [], d)
      else readN d (nat (sint n)))"

subsection \<open>Decoding: intern.go, lines 108 to 248\<close>

definition decodeInternedStringIndex :: "decoder \<Rightarrow> goint \<Rightarrow> (error + goint) \<times> decoder" where
  "decodeInternedStringIndex d len =
     (if len = 1 then
        (case ReadByte d of
           (Inl err, d') \<Rightarrow> (Inl err, d')
         | (Inr c, d') \<Rightarrow> (Inr (ucast c), d'))
      else if len = 2 then
        (case readN d 2 of
           (Inl err, d') \<Rightarrow> (Inl err, d')
         | (Inr b, d') \<Rightarrow> (Inr (ucast (BigEndian_Uint16 b)), d'))
      else if len = 4 then
        (case readN d 4 of
           (Inl err, d') \<Rightarrow> (Inl err, d')
         | (Inr b, d') \<Rightarrow> (Inr (ucast (BigEndian_Uint32 b)), d'))
      else (Inl (MalformedIndexWidth len), d))"

definition internedStringAtIndex :: "decoder \<Rightarrow> goint \<Rightarrow> (error + gostring) \<times> decoder" where
  \<comment> \<open>\<open>idx\<close> comes from \<open>decodeInternedStringIndex\<close> and is never negative, so the slice
      access past the guard is in range.\<close>
  "internedStringAtIndex d idx =
     (if int (length (d_dict d)) \<le> sint idx then (Inl (IndexOutOfRange idx), d)
      else (Inr (d_dict d ! nat (sint idx)), d))"

definition decodeInternedStringWithLen :: "decoder \<Rightarrow> goint \<Rightarrow> bool \<Rightarrow> (error + gostring) \<times> decoder" where
  "decodeInternedStringWithLen d n intern =
     (if n \<le>s 0 then (Inr [], d)
      else
        (case stringWithLen d n of
           (Inl err, d') \<Rightarrow> (Inl err, d')
         | (Inr s, d') \<Rightarrow>
             (if intern \<and> length s \<ge> minInternedStringLen \<and> length (d_dict d') < maxDictLen
              then (Inr s, d'\<lparr>d_dict := d_dict d' @ [s]\<rparr>)
              else (Inr s, d'))))"

definition decodeInternedString :: "decoder \<Rightarrow> byte \<Rightarrow> bool \<Rightarrow> (error + gostring) \<times> decoder" where
  "decodeInternedString d c intern =
     (if IsFixedString c then decodeInternedStringWithLen d (ucast (c AND FixedStrMask)) intern
      else if c = Nil_code then (Inr [], d)
      else if c = FixExt1 \<or> c = FixExt2 \<or> c = FixExt4 then
        (case extHeader d c of
           (Inl err, d') \<Rightarrow> (Inl err, d')
         | (Inr (typeID, len), d') \<Rightarrow>
             (if typeID \<noteq> internedStringExtID then (Inl (ExtensionTypeMismatch typeID), d')
              else
                (case decodeInternedStringIndex d' len of
                   (Inl err, d'') \<Rightarrow> (Inl err, d'')
                 | (Inr idx, d'') \<Rightarrow> internedStringAtIndex d'' idx)))
      else if c = Str8 \<or> c = Bin8 then
        (case uint8 d of
           (Inl err, d') \<Rightarrow> (Inl err, d')
         | (Inr n, d') \<Rightarrow> decodeInternedStringWithLen d' (ucast n) intern)
      else if c = Str16 \<or> c = Bin16 then
        (case uint16 d of
           (Inl err, d') \<Rightarrow> (Inl err, d')
         | (Inr n, d') \<Rightarrow> decodeInternedStringWithLen d' (ucast n) intern)
      else if c = Str32 \<or> c = Bin32 then
        (case uint32 d of
           (Inl err, d') \<Rightarrow> (Inl err, d')
         | (Inr n, d') \<Rightarrow> decodeInternedStringWithLen d' (ucast n) intern)
      else (Inl errUnexpectedCode, d))"

text \<open>
  The interface-typed entry point binds either a string or whatever the host format's
  generic decoder \<open>decodeInterfaceValue\<close> produces. That decoder is not part of intern.go
  and is a parameter here.
\<close>

datatype 'a gvalue = VString gostring | VOther 'a

definition decodeInternedInterfaceValue ::
  "(decoder \<Rightarrow> (error + 'a gvalue) \<times> decoder) \<Rightarrow> decoder \<Rightarrow> (error + 'a gvalue) \<times> decoder" where
  "decodeInternedInterfaceValue decodeInterfaceValue d =
     (case readCode d of
        (Inl err, d1) \<Rightarrow> (Inl err, d1)
      | (Inr c, d1) \<Rightarrow>
          (case decodeInternedString d1 c True of
             (Inr s, d2) \<Rightarrow> (Inr (VString s), d2)
           | (Inl err, d2) \<Rightarrow>
               (if err \<noteq> errUnexpectedCode then (Inl err, d2)
                else
                  (case UnreadByte d2 of
                     (Some err', d3) \<Rightarrow> (Inl err', d3)
                   | (None, d3) \<Rightarrow> decodeInterfaceValue d3))))"

definition decodeInternedStringValue :: "decoder \<Rightarrow> (error + gostring) \<times> decoder" where
  "decodeInternedStringValue d =
     (case readCode d of
        (Inl err, d1) \<Rightarrow> (Inl err, d1)
      | (Inr c, d1) \<Rightarrow>
          (case decodeInternedString d1 c True of
             (Inl err, d2) \<Rightarrow>
               (if err = errUnexpectedCode then (Inl (InvalidInternCode c), d2)
                else (Inl err, d2))
           | (Inr s, d2) \<Rightarrow> (Inr s, d2)))"

subsection \<open>Vocabulary of the statements\<close>

text \<open>
  The big-endian representation of a number in \<open>k\<close> bytes, most significant byte first,
  and the number that a sequence of bytes stands for when read big-endian.
\<close>

fun be_bytes :: "nat \<Rightarrow> nat \<Rightarrow> byte list" where
  "be_bytes 0 n = []"
| "be_bytes (Suc k) n = be_bytes k (n div 256) @ [of_nat (n mod 256)]"

definition be_nat :: "byte list \<Rightarrow> nat" where
  "be_nat bs = foldl (\<lambda>a b. a * 256 + unat b) 0 bs"

(*DEFS-END*)

section \<open>Words and bytes\<close>

lemma nonneg_sint_unat:
  assumes "0 \<le>s (idx::goint)"
  shows "sint idx = uint idx"
proof -
  have "0 \<le> sint idx"
    using assms by (simp add: word_sle_eq)
  moreover have "sint idx < 2 ^ 63"
    using sint_lt [of idx] by simp
  ultimately have "take_bit 64 (sint idx) = sint idx"
    by (simp add: take_bit_int_eq_self)
  then show ?thesis
    using uint_sint [of idx] by simp
qed

lemma ucast8_of_nat: "(ucast (w :: 'a :: len word) :: 8 word) = of_nat (unat w mod 256)"
  by (simp add: word_unat_eq_iff unsigned_ucast_eq unat_of_nat take_bit_eq_mod)

lemma ucast8_drop: "(ucast (drop_bit k (w :: 'a :: len word)) :: 8 word) = of_nat (unat w div 2 ^ k mod 256)"
  apply (simp only: word_unat_eq_iff unsigned_ucast_eq unat_of_nat unat_drop_bit_eq)
  apply (simp add: take_bit_eq_mod drop_bit_eq_div)
  done

lemma unat_ucast16: "unat (ucast (w :: goint) :: 16 word) = unat w mod 65536"
  by (simp add: unsigned_ucast_eq take_bit_eq_mod)
lemma unat_ucast32: "unat (ucast (w :: goint) :: 32 word) = unat w mod 4294967296"
  by (simp add: unsigned_ucast_eq take_bit_eq_mod)

lemma be_bytes_2: "be_bytes 2 n = [of_nat (n div 256 mod 256), of_nat (n mod 256)]"
  by (simp add: numeral_2_eq_2)

lemma be_bytes_4: "be_bytes 4 n = [of_nat (n div 16777216 mod 256), of_nat (n div 65536 mod 256), of_nat (n div 256 mod 256), of_nat (n mod 256)]"
proof -
  have f: "(4::nat) = Suc (Suc (Suc (Suc 0)))" by simp
  have d: "n div 256 div 256 = n div 65536" "n div 65536 div 256 = n div 16777216"
    by (simp_all add: div_mult2_eq [symmetric])
  show ?thesis
    unfolding f by (simp add: d)
qed


lemma byte_of_nat_mod: "(word_of_nat (unat (n::8 word) mod 256) :: 8 word) = n"
proof -
  have "unat n < 256"
    using unsigned_less [of n, where 'a = nat] by simp
  then show ?thesis by simp
qed

lemma uint_le_unat_mod:
  fixes w :: "'a::len word"
  assumes "uint w \<le> uint (c :: 'a word)" and "unat c < m"
  shows "unat w mod m = unat w"
proof -
  have "w \<le> c" using assms(1) by (simp add: word_le_def)
  then have "unat w \<le> unat c" by (simp add: word_le_nat_alt)
  then show ?thesis using assms(2) by simp
qed

lemma write1_bytes: "write1 e code n = (None, e\<lparr>e_w := e_w e @ code # be_bytes 1 (unat n)\<rparr>)"
  by (simp add: write1_def e_write_def byte_of_nat_mod)

lemma write2_bytes: "write2 e code n = (None, e\<lparr>e_w := e_w e @ code # be_bytes 2 (unat n)\<rparr>)"
  unfolding write2_def e_write_def be_bytes_2
  apply (simp only: ucast8_drop)
  apply (simp only: ucast8_of_nat)
  apply simp
  done

lemma write4_bytes: "write4 e code n = (None, e\<lparr>e_w := e_w e @ code # be_bytes 4 (unat n)\<rparr>)"
  unfolding write4_def e_write_def be_bytes_4
  apply (simp only: ucast8_drop)
  apply (simp only: ucast8_of_nat)
  apply simp
  done


lemma uint_le_iff_unat: "uint (w :: 'a::len word) \<le> int n \<longleftrightarrow> unat w \<le> n"
  by (metis of_nat_unat of_nat_le_iff)

lemma unat_ucast_small:
  "unat (w :: 'a::len word) < 2 ^ LENGTH('b) \<Longrightarrow> unat (ucast w :: 'b::len word) = unat w"
  by (simp add: unsigned_ucast_eq take_bit_nat_eq_self)


section \<open>The reference codec\<close>

text \<open>
  C5. For every non-negative index, \<open>encodeInternedStringIndex\<close> picks the narrowest
  form: an index up to 255 is written as a 1-byte payload after the code \<open>FixExt1\<close>, an
  index from 256 to 65535 as a 2-byte payload after \<open>FixExt2\<close>, an index from 65536 to
  4294967295 as a 4-byte payload after \<open>FixExt4\<close>; the payload is the big-endian
  unsigned index and follows the reserved type tag. A larger index fails with
  \<open>IndexOverflow\<close> and writes nothing.
\<close>

theorem encodeInternedStringIndex_narrowest:
  assumes "0 \<le>s idx"
  shows "encodeInternedStringIndex e idx =
     (if sint idx \<le> 255 then
        (None, e\<lparr>e_w := e_w e @ [FixExt1, internedStringExtID] @ be_bytes 1 (nat (sint idx))\<rparr>)
      else if sint idx \<le> 65535 then
        (None, e\<lparr>e_w := e_w e @ [FixExt2, internedStringExtID] @ be_bytes 2 (nat (sint idx))\<rparr>)
      else if sint idx \<le> 4294967295 then
        (None, e\<lparr>e_w := e_w e @ [FixExt4, internedStringExtID] @ be_bytes 4 (nat (sint idx))\<rparr>)
      else (Some (IndexOverflow idx), e))"
proof -
  have s: "sint idx = uint idx"
    by (rule nonneg_sint_unat [OF assms])
  have n: "nat (sint idx) = unat idx"
    by (simp add: s)
  have A: "idx \<le>s 255 \<longleftrightarrow> sint idx \<le> 255" and B: "idx \<le>s 65535 \<longleftrightarrow> sint idx \<le> 65535"
    by (simp_all add: word_sle_eq)
  have C: "idx \<le> 4294967295 \<longleftrightarrow> sint idx \<le> 4294967295"
    by (simp add: word_le_def s)
  have U: "sint idx \<le> int k \<longleftrightarrow> unat idx \<le> k" for k
    unfolding s by (rule uint_le_iff_unat)
  consider (one) "sint idx \<le> 255"
    | (two) "\<not> sint idx \<le> 255" "sint idx \<le> 65535"
    | (four) "\<not> sint idx \<le> 255" "\<not> sint idx \<le> 65535" "sint idx \<le> 4294967295"
    | (over) "\<not> sint idx \<le> 255" "\<not> sint idx \<le> 65535" "\<not> sint idx \<le> 4294967295"
    by blast
  then show ?thesis
  proof cases
    case one
    have "unat idx \<le> 255" using one U [of 255] by simp
    then have c: "unat (ucast idx :: 8 word) = unat idx"
      by (intro unat_ucast_small) simp
    show ?thesis
      unfolding encodeInternedStringIndex_def n
      by (simp only: A one if_True writeCode_def e_write_def write1_bytes c) simp
  next
    case two
    have "unat idx \<le> 65535" using two U [of 65535] by simp
    then have c: "unat (ucast idx :: 16 word) = unat idx"
      by (intro unat_ucast_small) simp
    show ?thesis
      unfolding encodeInternedStringIndex_def n
      by (simp only: A B two if_True if_False writeCode_def e_write_def write2_bytes c) simp
  next
    case four
    have "unat idx \<le> 4294967295" using four U [of 4294967295] by simp
    then have c: "unat (ucast idx :: 32 word) = unat idx"
      by (intro unat_ucast_small) simp
    show ?thesis
      unfolding encodeInternedStringIndex_def n
      by (simp only: A B C four if_True if_False writeCode_def e_write_def write4_bytes c) simp
  next
    case over
    show ?thesis
      unfolding encodeInternedStringIndex_def
      by (simp only: A B C over if_False)
  qed
qed

theorem encodeInternedStringIndex_narrowest_witness:
  "encodeInternedStringIndex \<lparr>e_w = [], e_dict = fmempty\<rparr> 7 = (None, \<lparr>e_w = [0xd4, 0x80, 7], e_dict = fmempty\<rparr>)
   \<and> encodeInternedStringIndex \<lparr>e_w = [], e_dict = fmempty\<rparr> 258 = (None, \<lparr>e_w = [0xd5, 0x80, 1, 2], e_dict = fmempty\<rparr>)
   \<and> encodeInternedStringIndex \<lparr>e_w = [], e_dict = fmempty\<rparr> 65536 = (None, \<lparr>e_w = [0xd6, 0x80, 0, 1, 0, 0], e_dict = fmempty\<rparr>)
   \<and> encodeInternedStringIndex \<lparr>e_w = [], e_dict = fmempty\<rparr> 4294967296 = (Some (IndexOverflow 4294967296), \<lparr>e_w = [], e_dict = fmempty\<rparr>)"
proof -
  have h: "0 \<le>s (7::goint)" "0 \<le>s (258::goint)" "0 \<le>s (65536::goint)" "0 \<le>s (4294967296::goint)"
    by (simp_all add: word_sle_eq)
  show ?thesis
    using encodeInternedStringIndex_narrowest [OF h(1), of "\<lparr>e_w = [], e_dict = fmempty\<rparr>"]
      encodeInternedStringIndex_narrowest [OF h(2), of "\<lparr>e_w = [], e_dict = fmempty\<rparr>"]
      encodeInternedStringIndex_narrowest [OF h(3), of "\<lparr>e_w = [], e_dict = fmempty\<rparr>"]
      encodeInternedStringIndex_narrowest [OF h(4), of "\<lparr>e_w = [], e_dict = fmempty\<rparr>"]
    by (simp add: be_bytes_2 be_bytes_4 FixExt1_def FixExt2_def FixExt4_def internedStringExtID_def)
qed


end
